theory Spec2Isabelle
  imports Main "HOL-Library.AList"
begin

section \<open>Values, documents and errors\<close>

text \<open>
  The handlers of \<^verbatim>\<open>main.py\<close> move Python dictionaries between the request, the
  document store and the response. A dictionary is an association list in insertion
  order (\<open>AList.update\<close> overwrites in place or appends, \<open>AList.delete\<close> removes, as
  assignment and \<^verbatim>\<open>pop\<close> do on a Python dict); its values are the Python values
  that occur in the program.
\<close>

datatype pyval =
    VNone
  | VStr string
  | VInt int
  | VObjectId nat
  | VList "pyval list"
  | VDict "(string \<times> pyval) list"

type_synonym doc = "(string \<times> pyval) list"

text \<open>\<^verbatim>\<open>HTTPException(status_code=..., detail=...)\<close>\<close>

datatype http_error = HTTPException nat string

fun status_code :: "http_error \<Rightarrow> nat" where
  "status_code (HTTPException c d) = c"

fun detail :: "http_error \<Rightarrow> string" where
  "detail (HTTPException c d) = d"

section \<open>The document store\<close>

text \<open>
  Modelled from the spec: the module \<^verbatim>\<open>database\<close> (\<^verbatim>\<open>db\<close>, \<^verbatim>\<open>create_document\<close>,
  \<^verbatim>\<open>get_documents\<close>) is imported by \<^verbatim>\<open>main.py\<close> but is not among the sources. The
  definitions of this section follow section 4.1 of the specification: a store holds named
  collections of documents in their natural (insertion) order; \<open>insert\<close> stores the
  document and returns a newly assigned unique identifier; \<open>findAll\<close> returns every
  document of a collection; \<open>findOne\<close> returns the first document matching an
  equality filter, or nothing; \<open>findMany\<close> returns up to \<open>limit\<close> matching documents;
  every operation fails when the store is unavailable.

  The identifier is a counter; \<open>str\<close> of an identifier is its rendering as 24
  hexadecimal digits.
\<close>

record store =
  collections :: "(string \<times> doc list) list"
  next_oid :: nat

definition collection :: "store \<Rightarrow> string \<Rightarrow> doc list" where
  "collection s name = (case map_of (collections s) name of None \<Rightarrow> [] | Some ds \<Rightarrow> ds)"

text \<open>An equality filter \<^verbatim>\<open>{k1: v1, ...}\<close>: every listed field is present with that value.\<close>

definition matches :: "doc \<Rightarrow> doc \<Rightarrow> bool" where
  "matches flt d = list_all (\<lambda>kv. map_of d (fst kv) = Some (snd kv)) flt"

definition find_docs :: "store \<Rightarrow> string \<Rightarrow> doc \<Rightarrow> doc list" where
  "find_docs s name flt = filter (matches flt) (collection s name)"

definition cursor_limit :: "int \<Rightarrow> doc list \<Rightarrow> doc list" where
  "cursor_limit n ds = take (nat n) ds"

definition find_one :: "store \<Rightarrow> string \<Rightarrow> doc \<Rightarrow> doc option" where
  "find_one s name flt = (case find_docs s name flt of [] \<Rightarrow> None | d # ds \<Rightarrow> Some d)"

definition insert_one :: "store \<Rightarrow> string \<Rightarrow> doc \<Rightarrow> nat \<times> store" where
  "insert_one s name d =
     (let oid = next_oid s;
          stored = (''_id'', VObjectId oid) # d
      in (oid, s\<lparr>collections := AList.update name (collection s name @ [stored]) (collections s),
                 next_oid := Suc oid\<rparr>))"

definition hex_digit :: "nat \<Rightarrow> char" where
  "hex_digit d = ''0123456789abcdef'' ! (d mod 16)"

fun hex_str :: "nat \<Rightarrow> nat \<Rightarrow> string" where
  "hex_str 0 n = []"
| "hex_str (Suc k) n = hex_str k (n div 16) @ [hex_digit n]"

definition str_ObjectId :: "nat \<Rightarrow> string" where
  "str_ObjectId oid = hex_str 24 oid"

text \<open>
  The process-wide handle \<^verbatim>\<open>db\<close> is \<open>None\<close> when no store is configured. The
  exception text of an unavailable store stands for the error the specification calls
  \<open>StoreUnavailable\<close>.
\<close>

definition StoreUnavailable :: string where
  "StoreUnavailable = ''StoreUnavailable''"

definition create_document :: "store option \<Rightarrow> string \<Rightarrow> doc \<Rightarrow> string + (string \<times> store option)" where
  "create_document db name d =
     (case db of
        None \<Rightarrow> Inl StoreUnavailable
      | Some s \<Rightarrow> (case insert_one s name d of (oid, s') \<Rightarrow> Inr (str_ObjectId oid, Some s')))"

definition get_documents :: "store option \<Rightarrow> string \<Rightarrow> string + doc list" where
  "get_documents db name =
     (case db of
        None \<Rightarrow> Inl StoreUnavailable
      | Some s \<Rightarrow> Inr (find_docs s name []))"

text \<open>
  \<^verbatim>\<open>db["chapter"]\<close> on the handle \<open>None\<close> raises Python's \<^verbatim>\<open>TypeError\<close>; the
  handlers turn its text into the detail of a 500 response.
\<close>

definition NoneType_not_subscriptable :: string where
  "NoneType_not_subscriptable =
     CHR 0x27 # ''NoneType'' @ CHR 0x27 # '' object is not subscriptable''"

section \<open>The schemas of \<^verbatim>\<open>schemas.py\<close>\<close>

record Chapter =
  ch_slug :: string
  ch_title :: string
  ch_summary :: string
  ch_objectives :: "string list"
  ch_sections :: "doc list"

record QuizQuestion =
  qq_chapter_slug :: string
  qq_question :: string
  qq_options :: "string list"
  qq_correct_index :: int
  qq_explanation :: string
  qq_difficulty :: string

text \<open>
  Field constraints of \<^verbatim>\<open>QuizQuestion\<close>: \<^verbatim>\<open>options\<close> has \<^verbatim>\<open>min_items=2\<close>,
  \<^verbatim>\<open>correct_index\<close> has \<^verbatim>\<open>ge=0\<close>. Constructing the model raises a validation error
  when one is violated. \<^verbatim>\<open>Chapter\<close> declares no constraint.
\<close>

definition ValidationError :: string where
  "ValidationError = ''ValidationError''"

definition QuizQuestion_validate :: "QuizQuestion \<Rightarrow> string + QuizQuestion" where
  "QuizQuestion_validate q =
     (if length (qq_options q) < 2 then Inl ValidationError
      else if qq_correct_index q < 0 then Inl ValidationError
      else Inr q)"

fun validate_all :: "QuizQuestion list \<Rightarrow> string + QuizQuestion list" where
  "validate_all [] = Inr []"
| "validate_all (q # qs) =
     (case QuizQuestion_validate q of
        Inl e \<Rightarrow> Inl e
      | Inr q' \<Rightarrow> (case validate_all qs of Inl e \<Rightarrow> Inl e | Inr qs' \<Rightarrow> Inr (q' # qs')))"

text \<open>\<^verbatim>\<open>model_dump()\<close>: the fields in declaration order.\<close>

definition Chapter_dump :: "Chapter \<Rightarrow> doc" where
  "Chapter_dump c =
     [(''slug'', VStr (ch_slug c)),
      (''title'', VStr (ch_title c)),
      (''summary'', VStr (ch_summary c)),
      (''objectives'', VList (map VStr (ch_objectives c))),
      (''sections'', VList (map VDict (ch_sections c)))]"

definition QuizQuestion_dump :: "QuizQuestion \<Rightarrow> doc" where
  "QuizQuestion_dump q =
     [(''chapter_slug'', VStr (qq_chapter_slug q)),
      (''question'', VStr (qq_question q)),
      (''options'', VList (map VStr (qq_options q))),
      (''correct_index'', VInt (qq_correct_index q)),
      (''explanation'', VStr (qq_explanation q)),
      (''difficulty'', VStr (qq_difficulty q))]"

section \<open>The request models of \<^verbatim>\<open>main.py\<close>\<close>

text \<open>
  \<^verbatim>\<open>ChapterIn\<close> and \<^verbatim>\<open>QuizIn\<close> are the validated request models. A request body
  may omit a field that has a default; the body records carry such a field as an option,
  \<open>None\<close> for an omitted field, and the model is built by filling in the declared default.
\<close>

record ChapterIn =
  ci_slug :: string
  ci_title :: string
  ci_summary :: string
  ci_objectives :: "string list"
  ci_sections :: "doc list"

record ChapterBody =
  cb_slug :: string
  cb_title :: string
  cb_summary :: string
  cb_objectives :: "string list option"
  cb_sections :: "doc list option"

definition ChapterIn_of_body :: "ChapterBody \<Rightarrow> ChapterIn" where
  "ChapterIn_of_body b =
     \<lparr>ci_slug = cb_slug b, ci_title = cb_title b, ci_summary = cb_summary b,
      ci_objectives = (case cb_objectives b of None \<Rightarrow> [] | Some os \<Rightarrow> os),
      ci_sections = (case cb_sections b of None \<Rightarrow> [] | Some ss \<Rightarrow> ss)\<rparr>"

definition ChapterIn_dump :: "ChapterIn \<Rightarrow> doc" where
  "ChapterIn_dump c =
     [(''slug'', VStr (ci_slug c)),
      (''title'', VStr (ci_title c)),
      (''summary'', VStr (ci_summary c)),
      (''objectives'', VList (map VStr (ci_objectives c))),
      (''sections'', VList (map VDict (ci_sections c)))]"

text \<open>
  \<^verbatim>\<open>difficulty: Optional[str] = "OSN-N"\<close>: the field of the model is a string or
  \<^verbatim>\<open>None\<close>; the body may omit it (outer \<open>None\<close>) or give either value.
\<close>

record QuizIn =
  qi_chapter_slug :: string
  qi_question :: string
  qi_options :: "string list"
  qi_correct_index :: int
  qi_explanation :: string
  qi_difficulty :: "string option"

record QuizBody =
  qb_chapter_slug :: string
  qb_question :: string
  qb_options :: "string list"
  qb_correct_index :: int
  qb_explanation :: string
  qb_difficulty :: "string option option"

definition QuizIn_of_body :: "QuizBody \<Rightarrow> QuizIn" where
  "QuizIn_of_body b =
     \<lparr>qi_chapter_slug = qb_chapter_slug b, qi_question = qb_question b,
      qi_options = qb_options b, qi_correct_index = qb_correct_index b,
      qi_explanation = qb_explanation b,
      qi_difficulty = (case qb_difficulty b of None \<Rightarrow> Some ''OSN-N'' | Some d \<Rightarrow> d)\<rparr>"

definition QuizIn_dump :: "QuizIn \<Rightarrow> doc" where
  "QuizIn_dump q =
     [(''chapter_slug'', VStr (qi_chapter_slug q)),
      (''question'', VStr (qi_question q)),
      (''options'', VList (map VStr (qi_options q))),
      (''correct_index'', VInt (qi_correct_index q)),
      (''explanation'', VStr (qi_explanation q)),
      (''difficulty'', (case qi_difficulty q of None \<Rightarrow> VNone | Some d \<Rightarrow> VStr d))]"

section \<open>Serialization\<close>

text \<open>
  \<^verbatim>\<open>str(doc.pop("_id"))\<close>. The store assigns ObjectIds, rendered as 24 hexadecimal
  digits; a string renders as itself and \<^verbatim>\<open>None\<close> as its name. Python's rendering
  of numbers and containers is not modelled: no document of this system carries one as
  its \<^verbatim>\<open>_id\<close>.
\<close>

fun py_str :: "pyval \<Rightarrow> string" where
  "py_str (VObjectId oid) = str_ObjectId oid"
| "py_str (VStr s) = s"
| "py_str VNone = ''None''"
| "py_str v = []"

text \<open>
  \<^verbatim>\<open>serialize(doc)\<close>: a falsy document (here the empty dictionary; the handlers
  never pass \<^verbatim>\<open>None\<close>) is returned as it is; otherwise the key \<^verbatim>\<open>_id\<close>, when
  present, is removed and its value stored as a string under \<^verbatim>\<open>id\<close>.
\<close>

definition serialize :: "doc \<Rightarrow> doc" where
  "serialize d =
     (if d = [] then d
      else (case map_of d ''_id'' of
              None \<Rightarrow> d
            | Some v \<Rightarrow> AList.update ''id'' (VStr (py_str v)) (AList.delete ''_id'' d)))"

text \<open>
  Truth value of the result of \<^verbatim>\<open>find_one\<close>: \<^verbatim>\<open>None\<close> and the empty
  dictionary are falsy. The handle \<^verbatim>\<open>db\<close> itself is taken as truthy exactly when it
  is not \<^verbatim>\<open>None\<close>.
\<close>

definition truthy :: "doc option \<Rightarrow> bool" where
  "truthy r = (case r of None \<Rightarrow> False | Some d \<Rightarrow> d \<noteq> [])"

section \<open>The handlers\<close>

subsection \<open>\<^verbatim>\<open>POST /seed\<close>\<close>

definition seed_chapter :: Chapter where
  "seed_chapter =
     \<lparr>ch_slug = ''cell-structure'',
      ch_title = ''Struktur dan Fungsi Sel'',
      ch_summary = ''Ikhtisar mandiri tentang struktur dasar sel prokariot dan eukariot, membran, organel, dan aliran energi.'',
      ch_objectives =
        [''Membedakan sel prokariot dan eukariot'',
         ''Menjelaskan fungsi organel utama'',
         ''Mengaitkan struktur membran dengan transport''],
      ch_sections =
        [[(''heading'', VStr ''Gambaran Umum Sel''), (''body'', VStr ''Sel adalah unit dasar kehidupan.'')],
         [(''heading'', VStr ''Organel Utama''),
          (''body'', VStr ''Nukleus, mitokondria, ribosom, retikulum endoplasma, dan lain-lain.'')]]\<rparr>"

definition sample_questions :: "QuizQuestion list" where
  "sample_questions =
     [\<lparr>qq_chapter_slug = ''cell-structure'',
       qq_question = ''Komponen apakah yang paling berperan langsung dalam fosforilasi oksidatif pada sel eukariot?'',
       qq_options = [''Ribosom'', ''Mitokondria membran dalam'', ''Aparatus Golgi'', ''Peroksisom''],
       qq_correct_index = 1,
       qq_explanation = ''Rantai transpor elektron dan ATP sintase terletak pada membran dalam mitokondria.'',
       qq_difficulty = ''OSN-N''\<rparr>,
      \<lparr>qq_chapter_slug = ''cell-structure'',
       qq_question = ''Pada model mosaik fluida, fungsi utama kolesterol dalam membran adalah...'',
       qq_options =
         [''Meningkatkan permeabilitas air'', ''Menstabilkan fluiditas pada rentang suhu'',
          ''Mengaktifkan pompa ion'', ''Mengikat glikoprotein''],
       qq_correct_index = 1,
       qq_explanation = ''Kolesterol membantu menjaga fluiditas membran tetap stabil terhadap perubahan suhu.'',
       qq_difficulty = ''OSN-N''\<rparr>,
      \<lparr>qq_chapter_slug = ''cell-structure'',
       qq_question = ''Manakah mekanisme transport yang memerlukan energi langsung dari ATP?'',
       qq_options =
         [''Difusi sederhana'', ''Osmosis'', ''Difusi terfasilitasi'', ''Transpor aktif primer''],
       qq_correct_index = 3,
       qq_explanation = ''Transpor aktif primer menggunakan energi ATP untuk memompa molekul melawan gradien.'',
       qq_difficulty = ''OSN-N''\<rparr>]"

text \<open>The loop \<^verbatim>\<open>for q in sample_questions: create_document("quizquestion", q)\<close>.\<close>

fun create_documents :: "store option \<Rightarrow> string \<Rightarrow> doc list \<Rightarrow> (string + unit) \<times> store option" where
  "create_documents db name [] = (Inr (), db)"
| "create_documents db name (d # ds) =
     (case create_document db name d of
        Inl e \<Rightarrow> (Inl e, db)
      | Inr (oid, db') \<Rightarrow> create_documents db' name ds)"

definition seed_data :: "store option \<Rightarrow> (http_error + doc) \<times> store option" where
  "seed_data db =
     (let existing = (case db of None \<Rightarrow> [] | Some s \<Rightarrow> cursor_limit 1 (find_docs s ''chapter'' []))
      in if existing \<noteq> [] then
           (Inr [(''status'', VStr ''ok''), (''message'', VStr ''Already seeded'')], db)
         else
           (case create_document db ''chapter'' (Chapter_dump seed_chapter) of
              Inl e \<Rightarrow> (Inl (HTTPException 500 e), db)
            | Inr (oid, db1) \<Rightarrow>
                (case validate_all sample_questions of
                   Inl e \<Rightarrow> (Inl (HTTPException 500 e), db1)
                 | Inr qs \<Rightarrow>
                     (case create_documents db1 ''quizquestion'' (map QuizQuestion_dump qs) of
                        (Inl e, db2) \<Rightarrow> (Inl (HTTPException 500 e), db2)
                      | (Inr u, db2) \<Rightarrow>
                          (Inr [(''status'', VStr ''ok''), (''message'', VStr ''Seeded'')], db2)))))"

subsection \<open>\<^verbatim>\<open>GET /chapters\<close> and \<^verbatim>\<open>GET /chapters/{slug}\<close>\<close>

definition list_chapters :: "store option \<Rightarrow> http_error + doc list" where
  "list_chapters db =
     (case get_documents db ''chapter'' of
        Inl e \<Rightarrow> Inl (HTTPException 500 e)
      | Inr docs \<Rightarrow> Inr (map serialize docs))"

definition get_chapter :: "store option \<Rightarrow> string \<Rightarrow> http_error + doc" where
  "get_chapter db slug =
     (case db of
        None \<Rightarrow> Inl (HTTPException 500 NoneType_not_subscriptable)
      | Some s \<Rightarrow>
          (case find_one s ''chapter'' [(''slug'', VStr slug)] of
             None \<Rightarrow> Inl (HTTPException 404 ''Chapter not found'')
           | Some d \<Rightarrow>
               if d = [] then Inl (HTTPException 404 ''Chapter not found'')
               else Inr (serialize d)))"

subsection \<open>\<^verbatim>\<open>POST /chapters\<close>\<close>

definition create_chapter :: "store option \<Rightarrow> ChapterIn \<Rightarrow> (http_error + doc) \<times> store option" where
  "create_chapter db payload =
     (case db of
        None \<Rightarrow> (Inl (HTTPException 500 NoneType_not_subscriptable), db)
      | Some s \<Rightarrow>
          (let exists = find_one s ''chapter'' [(''slug'', VStr (ci_slug payload))]
           in if truthy exists then (Inl (HTTPException 400 ''Slug already exists''), db)
              else (case create_document db ''chapter'' (ChapterIn_dump payload) of
                      Inl e \<Rightarrow> (Inl (HTTPException 500 e), db)
                    | Inr (oid, db') \<Rightarrow> (Inr [(''status'', VStr ''ok'')], db'))))"

subsection \<open>\<^verbatim>\<open>GET /chapters/{slug}/quiz\<close>\<close>

text \<open>The query parameter \<^verbatim>\<open>limit: int = 20\<close>: \<open>None\<close> when the request gives none.\<close>

definition get_quiz_for_chapter :: "store option \<Rightarrow> string \<Rightarrow> int option \<Rightarrow> http_error + doc list" where
  "get_quiz_for_chapter db slug limit_param =
     (let limit = (case limit_param of None \<Rightarrow> 20 | Some n \<Rightarrow> n)
      in case db of
           None \<Rightarrow> Inl (HTTPException 500 NoneType_not_subscriptable)
         | Some s \<Rightarrow>
             (let docs = cursor_limit limit (find_docs s ''quizquestion'' [(''chapter_slug'', VStr slug)])
              in Inr (map serialize docs)))"

subsection \<open>\<^verbatim>\<open>POST /quiz\<close>\<close>

definition create_quiz_item :: "store option \<Rightarrow> QuizIn \<Rightarrow> (http_error + doc) \<times> store option" where
  "create_quiz_item db item =
     (if qi_correct_index item < 0 \<or> qi_correct_index item \<ge> int (length (qi_options item)) then
        (Inl (HTTPException 400 ''correct_index out of range''), db)
      else (case create_document db ''quizquestion'' (QuizIn_dump item) of
              Inl e \<Rightarrow> (Inl (HTTPException 500 e), db)
            | Inr (oid, db') \<Rightarrow> (Inr [(''status'', VStr ''ok'')], db')))"

subsection \<open>\<^verbatim>\<open>GET /test\<close>\<close>

text \<open>
  The health check reads the environment instead of a collection: the outcome of
  \<^verbatim>\<open>from database import db\<close> (the text of a raised exception, or the handle, which
  may be \<^verbatim>\<open>None\<close>), the handle's \<^verbatim>\<open>name\<close> attribute when it has one, the outcome
  of \<^verbatim>\<open>list_collection_names()\<close> (the text of a raised exception, or the names), and
  the environment variable \<^verbatim>\<open>DATABASE_URL\<close>.
\<close>

record db_handle =
  handle_name :: "string option"
  list_collection_names :: "string + string list"

text \<open>The UTF-8 bytes of the three symbols that start the status texts.\<close>

definition check_mark :: string where
  "check_mark = [CHR 0xE2, CHR 0x9C, CHR 0x85]"

definition cross_mark :: string where
  "cross_mark = [CHR 0xE2, CHR 0x9D, CHR 0x8C]"

definition warning_sign :: string where
  "warning_sign = [CHR 0xE2, CHR 0x9A, CHR 0xA0, CHR 0xEF, CHR 0xB8, CHR 0x8F]"

definition initial_response :: doc where
  "initial_response =
     [(''backend'', VStr (check_mark @ '' Running'')),
      (''database'', VStr (cross_mark @ '' Not Available'')),
      (''database_url'', VNone),
      (''database_name'', VNone),
      (''connection_status'', VStr ''Not Connected''),
      (''collections'', VList [])]"

definition test_database :: "string + db_handle option \<Rightarrow> string option \<Rightarrow> doc" where
  "test_database imported DATABASE_URL =
     (case imported of
        Inl e \<Rightarrow>
          AList.update ''database'' (VStr (cross_mark @ '' Error: '' @ take 50 e)) initial_response
      | Inr None \<Rightarrow>
          AList.update ''database'' (VStr (warning_sign @ ''  Available but not initialized''))
            initial_response
      | Inr (Some h) \<Rightarrow>
          (let r1 = AList.update ''database'' (VStr (check_mark @ '' Available'')) initial_response;
               r2 = AList.update ''database_url''
                      (VStr (if DATABASE_URL \<noteq> None \<and> DATABASE_URL \<noteq> Some []
                             then check_mark @ '' Set'' else cross_mark @ '' Not Set'')) r1;
               r3 = AList.update ''database_name''
                      (VStr (case handle_name h of
                               Some n \<Rightarrow> n
                             | None \<Rightarrow> check_mark @ '' Connected'')) r2;
               r4 = AList.update ''connection_status'' (VStr ''Connected'') r3
           in case list_collection_names h of
                Inr names \<Rightarrow>
                  AList.update ''database'' (VStr (check_mark @ '' Connected & Working''))
                    (AList.update ''collections'' (VList (map VStr (take 10 names))) r4)
              | Inl e \<Rightarrow>
                  AList.update ''database''
                    (VStr (warning_sign @ ''  Connected but Error: '' @ take 50 e)) r4))"

section \<open>Concrete stores and requests\<close>

definition empty_store :: store where
  "empty_store = \<lparr>collections = [], next_oid = 0\<rparr>"

text \<open>The request of the specification's validation example, with a chosen index.\<close>

definition quiz_ab :: "int \<Rightarrow> QuizIn" where
  "quiz_ab i =
     \<lparr>qi_chapter_slug = ''x'', qi_question = ''q'', qi_options = [''a'', ''b''],
      qi_correct_index = i, qi_explanation = ''e'', qi_difficulty = Some ''OSN-N''\<rparr>"

definition quiz_one_option :: QuizIn where
  "quiz_one_option =
     \<lparr>qi_chapter_slug = ''x'', qi_question = ''q'', qi_options = [''a''],
      qi_correct_index = 0, qi_explanation = ''e'', qi_difficulty = Some ''OSN-N''\<rparr>"

definition chapter_x :: ChapterIn where
  "chapter_x =
     \<lparr>ci_slug = ''x'', ci_title = ''t'', ci_summary = ''s'', ci_objectives = [''o''],
      ci_sections = [[(''heading'', VStr ''h''), (''body'', VStr ''b'')]]\<rparr>"

text \<open>A store holding the single chapter \<open>chapter_x\<close>, and request bodies that omit every optional field.\<close>

definition store_x :: store where
  "store_x = snd (insert_one empty_store ''chapter'' (ChapterIn_dump chapter_x))"

definition body_minimal :: ChapterBody where
  "body_minimal =
     \<lparr>cb_slug = ''y'', cb_title = ''t'', cb_summary = ''s'', cb_objectives = None, cb_sections = None\<rparr>"

definition quiz_body_minimal :: QuizBody where
  "quiz_body_minimal =
     \<lparr>qb_chapter_slug = ''y'', qb_question = ''q'', qb_options = [''a'', ''b''],
      qb_correct_index = 1, qb_explanation = ''e'', qb_difficulty = None\<rparr>"

text \<open>The documents that successive inserts store, the first under the given identifier.\<close>

fun stored_docs :: "nat \<Rightarrow> doc list \<Rightarrow> doc list" where
  "stored_docs oid [] = []"
| "stored_docs oid (d # ds) = ((''_id'', VObjectId oid) # d) # stored_docs (Suc oid) ds"

text \<open>
  The check of \<^verbatim>\<open>create_quiz_item\<close>, \<^verbatim>\<open>0 <= correct_index < len(options)\<close>, read
  on a stored document.
\<close>

definition index_in_bounds :: "doc \<Rightarrow> bool" where
  "index_in_bounds d =
     (case map_of d ''correct_index'' of
        Some (VInt i) \<Rightarrow>
          (case map_of d ''options'' of
             Some (VList os) \<Rightarrow> 0 \<le> i \<and> i < int (length os)
           | _ \<Rightarrow> False)
      | _ \<Rightarrow> False)"

definition options_length :: "doc \<Rightarrow> nat option" where
  "options_length d =
     (case map_of d ''options'' of Some (VList os) \<Rightarrow> Some (length os) | _ \<Rightarrow> None)"

text \<open>The store after seeding the empty store, and a handle that lists twelve collections.\<close>

definition seeded_store :: store where
  "seeded_store = (case snd (seed_data (Some empty_store)) of None \<Rightarrow> empty_store | Some s \<Rightarrow> s)"

definition handle_many :: db_handle where
  "handle_many =
     \<lparr>handle_name = Some ''biology'',
      list_collection_names =
        Inr [''c01'', ''c02'', ''c03'', ''c04'', ''c05'', ''c06'', ''c07'', ''c08'', ''c09'', ''c10'',
             ''c11'', ''c12'']\<rparr>"

section \<open>Properties of the store\<close>

lemma collection_empty_store: "collection empty_store n = []"
  by (simp add: empty_store_def collection_def)

lemma next_oid_empty_store: "next_oid empty_store = 0"
  by (simp add: empty_store_def)

lemma collection_insert_one:
  "collection (snd (insert_one s n d)) m =
     (if m = n then collection s n @ [(''_id'', VObjectId (next_oid s)) # d] else collection s m)"
  by (simp add: insert_one_def collection_def Let_def update_conv')

lemma create_document_Some:
  "create_document (Some s) n d =
     Inr (str_ObjectId (next_oid s), Some (snd (insert_one s n d)))"
  by (simp add: create_document_def insert_one_def Let_def)

section \<open>Quiz creation\<close>

text \<open>
  C2: \<^verbatim>\<open>create_quiz_item\<close> answers 400 if and only if \<^verbatim>\<open>correct_index\<close> is negative
  or at least the number of options, whatever the state of the store, and then leaves the
  store as it was; with an index in range and a store present it appends the dumped
  request, under a fresh identifier, to the collection \<^verbatim>\<open>quizquestion\<close>, changes no
  other collection and answers \<^verbatim>\<open>{"status": "ok"}\<close>.
\<close>

theorem create_quiz_item_validation:
  "((\<exists>d. fst (create_quiz_item db item) = Inl (HTTPException 400 d)) \<longleftrightarrow>
      (qi_correct_index item < 0 \<or> int (length (qi_options item)) \<le> qi_correct_index item))
   \<and> ((qi_correct_index item < 0 \<or> int (length (qi_options item)) \<le> qi_correct_index item) \<longrightarrow>
        create_quiz_item db item = (Inl (HTTPException 400 ''correct_index out of range''), db))
   \<and> (0 \<le> qi_correct_index item \<and> qi_correct_index item < int (length (qi_options item)) \<longrightarrow>
        (\<exists>s'. create_quiz_item (Some s) item = (Inr [(''status'', VStr ''ok'')], Some s')
           \<and> collection s' ''quizquestion'' =
               collection s ''quizquestion'' @ [(''_id'', VObjectId (next_oid s)) # QuizIn_dump item]
           \<and> (\<forall>n. n \<noteq> ''quizquestion'' \<longrightarrow> collection s' n = collection s n)))"
proof (intro conjI impI)
  show "(\<exists>d. fst (create_quiz_item db item) = Inl (HTTPException 400 d)) \<longleftrightarrow>
      (qi_correct_index item < 0 \<or> int (length (qi_options item)) \<le> qi_correct_index item)"
    by (cases db) (auto simp: create_quiz_item_def create_document_def split: prod.splits)
next
  assume "qi_correct_index item < 0 \<or> int (length (qi_options item)) \<le> qi_correct_index item"
  then show "create_quiz_item db item = (Inl (HTTPException 400 ''correct_index out of range''), db)"
    by (auto simp: create_quiz_item_def)
next
  assume inr: "0 \<le> qi_correct_index item \<and> qi_correct_index item < int (length (qi_options item))"
  let ?s' = "snd (insert_one s ''quizquestion'' (QuizIn_dump item))"
  have "create_quiz_item (Some s) item = (Inr [(''status'', VStr ''ok'')], Some ?s')"
    using inr by (simp add: create_quiz_item_def create_document_Some)
  moreover have "collection ?s' ''quizquestion'' =
      collection s ''quizquestion'' @ [(''_id'', VObjectId (next_oid s)) # QuizIn_dump item]"
    by (simp add: collection_insert_one)
  moreover have "\<forall>n. n \<noteq> ''quizquestion'' \<longrightarrow> collection ?s' n = collection s n"
    by (simp add: collection_insert_one)
  ultimately show "\<exists>s'. create_quiz_item (Some s) item = (Inr [(''status'', VStr ''ok'')], Some s')
           \<and> collection s' ''quizquestion'' =
               collection s ''quizquestion'' @ [(''_id'', VObjectId (next_oid s)) # QuizIn_dump item]
           \<and> (\<forall>n. n \<noteq> ''quizquestion'' \<longrightarrow> collection s' n = collection s n)"
    by blast
qed

theorem create_quiz_item_validation_witness:
  "create_quiz_item (Some empty_store) (quiz_ab 2) =
     (Inl (HTTPException 400 ''correct_index out of range''), Some empty_store)
   \<and> (\<exists>s'. create_quiz_item (Some empty_store) (quiz_ab 1) = (Inr [(''status'', VStr ''ok'')], Some s')
        \<and> collection s' ''quizquestion'' = [(''_id'', VObjectId 0) # QuizIn_dump (quiz_ab 1)])"
  using create_quiz_item_validation [of "Some empty_store" "quiz_ab 2" empty_store]
        create_quiz_item_validation [of "Some empty_store" "quiz_ab 1" empty_store]
  by (auto simp: quiz_ab_def collection_empty_store next_oid_empty_store)

text \<open>
  C3: a request with the single option \<^verbatim>\<open>"a"\<close> and \<^verbatim>\<open>correct_index\<close> 0 passes the
  only check of \<^verbatim>\<open>create_quiz_item\<close> and is stored, although the schema
  \<^verbatim>\<open>QuizQuestion\<close> of the same collection, with \<^verbatim>\<open>min_items=2\<close> on its options,
  rejects these field values.
\<close>

theorem create_quiz_item_single_option_accepted:
  "create_quiz_item (Some empty_store) quiz_one_option =
     (Inr [(''status'', VStr ''ok'')],
      Some \<lparr>collections = [(''quizquestion'', [(''_id'', VObjectId 0) # QuizIn_dump quiz_one_option])],
            next_oid = 1\<rparr>)
   \<and> QuizQuestion_validate
        \<lparr>qq_chapter_slug = ''x'', qq_question = ''q'', qq_options = [''a''],
         qq_correct_index = 0, qq_explanation = ''e'', qq_difficulty = ''OSN-N''\<rparr>
      = Inl ValidationError"
  by (simp add: create_quiz_item_def quiz_one_option_def create_document_def insert_one_def
      empty_store_def collection_def QuizQuestion_validate_def Let_def)

section \<open>Lookups by one field\<close>

lemma matches_single: "matches [(k, v)] d = (map_of d k = Some v)"
  by (simp add: matches_def)

lemma find_one_None:
  "find_one s c [(k, v)] = None \<longleftrightarrow> (\<forall>d\<in>set (collection s c). map_of d k \<noteq> Some v)"
proof -
  have "find_one s c [(k, v)] = None \<longleftrightarrow> filter (matches [(k, v)]) (collection s c) = []"
    by (simp add: find_one_def find_docs_def split: list.splits)
  then show ?thesis
    by (simp add: filter_empty_conv matches_single)
qed

lemma find_one_Some:
  "find_one s c [(k, v)] = Some d \<Longrightarrow> d \<in> set (collection s c) \<and> map_of d k = Some v"
proof -
  assume a: "find_one s c [(k, v)] = Some d"
  then obtain ds where "filter (matches [(k, v)]) (collection s c) = d # ds"
    by (auto simp: find_one_def find_docs_def split: list.splits)
  then have "d \<in> set (filter (matches [(k, v)]) (collection s c))"
    by simp
  then show ?thesis
    by (simp add: matches_single)
qed

lemma truthy_find_one:
  "truthy (find_one s c [(k, v)]) \<longleftrightarrow> (\<exists>d\<in>set (collection s c). map_of d k = Some v)"
proof (cases "find_one s c [(k, v)]")
  case None
  then show ?thesis
    using find_one_None [of s c k v] by (simp add: truthy_def)
next
  case (Some d)
  then have "d \<in> set (collection s c) \<and> map_of d k = Some v"
    by (rule find_one_Some)
  moreover from this have "d \<noteq> []"
    by auto
  ultimately show ?thesis
    using Some by (auto simp: truthy_def)
qed

lemma find_one_insert_fresh:
  assumes "find_one s c [(k, v)] = None" and "map_of d k = Some v" and "k \<noteq> ''_id''"
  shows "find_one (snd (insert_one s c d)) c [(k, v)] = Some ((''_id'', VObjectId (next_oid s)) # d)"
proof -
  have "filter (matches [(k, v)]) (collection s c) = []"
    using assms(1) by (simp add: find_one_def find_docs_def split: list.splits)
  then show ?thesis
    using assms(2,3)
    by (simp add: find_one_def find_docs_def collection_insert_one matches_single)
qed

lemma ChapterIn_dump_slug: "map_of (ChapterIn_dump p) ''slug'' = Some (VStr (ci_slug p))"
  by (simp add: ChapterIn_dump_def)

section \<open>Chapter creation\<close>

text \<open>
  C4: when a chapter document with the slug of the request is in the store,
  \<^verbatim>\<open>create_chapter\<close> answers 400 with the detail "Slug already exists" and the store
  is as it was; when none is, it appends the dumped request under a fresh identifier to
  the collection \<^verbatim>\<open>chapter\<close>, changes no other collection, answers
  \<^verbatim>\<open>{"status": "ok"}\<close>, and any later request with the same slug on the resulting
  store gets the 400 and changes nothing.
\<close>

theorem create_chapter_conflict:
  "((\<exists>d\<in>set (collection s ''chapter''). map_of d ''slug'' = Some (VStr (ci_slug payload))) \<longrightarrow>
      create_chapter (Some s) payload = (Inl (HTTPException 400 ''Slug already exists''), Some s))
   \<and> (\<not> (\<exists>d\<in>set (collection s ''chapter''). map_of d ''slug'' = Some (VStr (ci_slug payload))) \<longrightarrow>
        (\<exists>s'. create_chapter (Some s) payload = (Inr [(''status'', VStr ''ok'')], Some s')
           \<and> collection s' ''chapter'' =
               collection s ''chapter'' @ [(''_id'', VObjectId (next_oid s)) # ChapterIn_dump payload]
           \<and> (\<forall>n. n \<noteq> ''chapter'' \<longrightarrow> collection s' n = collection s n)
           \<and> (\<forall>again. ci_slug again = ci_slug payload \<longrightarrow>
                create_chapter (Some s') again =
                  (Inl (HTTPException 400 ''Slug already exists''), Some s'))))"
proof (intro conjI impI)
  assume "\<exists>d\<in>set (collection s ''chapter''). map_of d ''slug'' = Some (VStr (ci_slug payload))"
  then have "truthy (find_one s ''chapter'' [(''slug'', VStr (ci_slug payload))])"
    by (simp only: truthy_find_one)
  then show "create_chapter (Some s) payload = (Inl (HTTPException 400 ''Slug already exists''), Some s)"
    by (simp add: create_chapter_def)
next
  assume fresh: "\<not> (\<exists>d\<in>set (collection s ''chapter''). map_of d ''slug'' = Some (VStr (ci_slug payload)))"
  let ?stored = "(''_id'', VObjectId (next_oid s)) # ChapterIn_dump payload"
  let ?s' = "snd (insert_one s ''chapter'' (ChapterIn_dump payload))"
  from fresh have "\<not> truthy (find_one s ''chapter'' [(''slug'', VStr (ci_slug payload))])"
    by (simp only: truthy_find_one not_False_eq_True)
  then have first: "create_chapter (Some s) payload = (Inr [(''status'', VStr ''ok'')], Some ?s')"
    by (simp add: create_chapter_def create_document_Some)
  have coll: "collection ?s' ''chapter'' = collection s ''chapter'' @ [?stored]"
    by (simp add: collection_insert_one)
  have others: "\<forall>n. n \<noteq> ''chapter'' \<longrightarrow> collection ?s' n = collection s n"
    by (simp add: collection_insert_one)
  have second: "\<forall>again. ci_slug again = ci_slug payload \<longrightarrow>
      create_chapter (Some ?s') again = (Inl (HTTPException 400 ''Slug already exists''), Some ?s')"
  proof (intro allI impI)
    fix again :: ChapterIn
    assume same: "ci_slug again = ci_slug payload"
    have "?stored \<in> set (collection ?s' ''chapter'')"
      by (simp add: coll)
    moreover have "map_of ?stored ''slug'' = Some (VStr (ci_slug again))"
      by (simp add: same ChapterIn_dump_slug)
    ultimately have "truthy (find_one ?s' ''chapter'' [(''slug'', VStr (ci_slug again))])"
      unfolding truthy_find_one by blast
    then show "create_chapter (Some ?s') again = (Inl (HTTPException 400 ''Slug already exists''), Some ?s')"
      by (simp add: create_chapter_def)
  qed
  from first coll others second
  show "\<exists>s'. create_chapter (Some s) payload = (Inr [(''status'', VStr ''ok'')], Some s')
           \<and> collection s' ''chapter'' = collection s ''chapter'' @ [?stored]
           \<and> (\<forall>n. n \<noteq> ''chapter'' \<longrightarrow> collection s' n = collection s n)
           \<and> (\<forall>again. ci_slug again = ci_slug payload \<longrightarrow>
                create_chapter (Some s') again =
                  (Inl (HTTPException 400 ''Slug already exists''), Some s'))"
    by blast
qed

theorem create_chapter_conflict_witness:
  "\<exists>s'. create_chapter (Some empty_store) chapter_x = (Inr [(''status'', VStr ''ok'')], Some s')
      \<and> collection s' ''chapter'' = [(''_id'', VObjectId 0) # ChapterIn_dump chapter_x]
      \<and> create_chapter (Some s') chapter_x = (Inl (HTTPException 400 ''Slug already exists''), Some s')
      \<and> (\<exists>d\<in>set (collection s' ''chapter''). map_of d ''slug'' = Some (VStr (ci_slug chapter_x)))"
proof -
  from create_chapter_conflict [of empty_store chapter_x]
  obtain s' where
    a: "create_chapter (Some empty_store) chapter_x = (Inr [(''status'', VStr ''ok'')], Some s')" and
    b: "collection s' ''chapter'' = [(''_id'', VObjectId 0) # ChapterIn_dump chapter_x]" and
    c: "\<forall>again. ci_slug again = ci_slug chapter_x \<longrightarrow>
          create_chapter (Some s') again = (Inl (HTTPException 400 ''Slug already exists''), Some s')"
    by (auto simp: collection_empty_store next_oid_empty_store)
  from c have "create_chapter (Some s') chapter_x = (Inl (HTTPException 400 ''Slug already exists''), Some s')"
    by simp
  moreover have "\<exists>d\<in>set (collection s' ''chapter''). map_of d ''slug'' = Some (VStr (ci_slug chapter_x))"
    by (simp add: b ChapterIn_dump_slug)
  ultimately show ?thesis
    using a b by blast
qed

section \<open>Fetching a chapter\<close>

lemma length_hex_str: "length (hex_str k n) = k"
  by (induction k arbitrary: n) simp_all

lemma length_str_ObjectId: "length (str_ObjectId oid) = 24"
  by (simp add: str_ObjectId_def length_hex_str)

lemma str_ObjectId_nonempty: "str_ObjectId oid \<noteq> []"
  using length_str_ObjectId [of oid] by auto

lemma serialize_stored_chapter:
  "serialize ((''_id'', VObjectId oid) # ChapterIn_dump p) =
     ChapterIn_dump p @ [(''id'', VStr (str_ObjectId oid))]"
  by (simp add: serialize_def ChapterIn_dump_def)

lemma create_chapter_fresh:
  assumes "\<not> (\<exists>d\<in>set (collection s ''chapter''). map_of d ''slug'' = Some (VStr (ci_slug p)))"
  shows "create_chapter (Some s) p =
           (Inr [(''status'', VStr ''ok'')], Some (snd (insert_one s ''chapter'' (ChapterIn_dump p))))"
proof -
  from assms have "\<not> truthy (find_one s ''chapter'' [(''slug'', VStr (ci_slug p))])"
    by (simp only: truthy_find_one not_False_eq_True)
  then show ?thesis
    by (simp add: create_chapter_def create_document_Some)
qed

lemma get_chapter_after_create:
  assumes "\<not> (\<exists>d\<in>set (collection s ''chapter''). map_of d ''slug'' = Some (VStr (ci_slug p)))"
  shows "get_chapter (Some (snd (insert_one s ''chapter'' (ChapterIn_dump p)))) (ci_slug p) =
           Inr (ChapterIn_dump p @ [(''id'', VStr (str_ObjectId (next_oid s)))])"
proof -
  from assms have none: "find_one s ''chapter'' [(''slug'', VStr (ci_slug p))] = None"
    by (simp add: find_one_None)
  have "find_one (snd (insert_one s ''chapter'' (ChapterIn_dump p))) ''chapter''
          [(''slug'', VStr (ci_slug p))] =
        Some ((''_id'', VObjectId (next_oid s)) # ChapterIn_dump p)"
    by (rule find_one_insert_fresh [OF none ChapterIn_dump_slug]) simp
  then show ?thesis
    by (simp add: get_chapter_def serialize_stored_chapter)
qed

lemma ChapterIn_of_body_slug: "ci_slug (ChapterIn_of_body b) = cb_slug b"
  by (simp add: ChapterIn_of_body_def)

text \<open>
  C6: with a store present, \<^verbatim>\<open>get_chapter\<close> answers 404 with the detail "Chapter not
  found" exactly when no chapter document carries the slug; when one does, the answer is
  the serialization of the first such document; and no error of the handler on a present
  store has a status other than 404, so the not-found answer is not turned into a 500.
\<close>

theorem get_chapter_not_found:
  "(get_chapter (Some s) slug = Inl (HTTPException 404 ''Chapter not found'')
      \<longleftrightarrow> \<not> (\<exists>d\<in>set (collection s ''chapter''). map_of d ''slug'' = Some (VStr slug)))
   \<and> ((\<exists>d\<in>set (collection s ''chapter''). map_of d ''slug'' = Some (VStr slug)) \<longrightarrow>
        (\<exists>d. find_one s ''chapter'' [(''slug'', VStr slug)] = Some d
           \<and> d \<in> set (collection s ''chapter'')
           \<and> map_of d ''slug'' = Some (VStr slug)
           \<and> get_chapter (Some s) slug = Inr (serialize d)))
   \<and> (\<forall>e. get_chapter (Some s) slug = Inl e \<longrightarrow> status_code e = 404)"
proof (cases "find_one s ''chapter'' [(''slug'', VStr slug)]")
  case None
  then have "\<not> (\<exists>d\<in>set (collection s ''chapter''). map_of d ''slug'' = Some (VStr slug))"
    by (simp add: find_one_None)
  moreover from None have "get_chapter (Some s) slug = Inl (HTTPException 404 ''Chapter not found'')"
    by (simp add: get_chapter_def)
  ultimately show ?thesis
    by simp
next
  case (Some d)
  then have d: "d \<in> set (collection s ''chapter'') \<and> map_of d ''slug'' = Some (VStr slug)"
    by (rule find_one_Some)
  then have "d \<noteq> []"
    by auto
  with Some have get: "get_chapter (Some s) slug = Inr (serialize d)"
    by (simp add: get_chapter_def)
  from d have ex: "\<exists>d\<in>set (collection s ''chapter''). map_of d ''slug'' = Some (VStr slug)"
    by blast
  show ?thesis
    using Some d get ex by simp
qed

theorem get_chapter_not_found_witness:
  "get_chapter (Some store_x) ''does-not-exist'' = Inl (HTTPException 404 ''Chapter not found'')
   \<and> (\<exists>d. d \<in> set (collection store_x ''chapter'') \<and> get_chapter (Some store_x) ''x'' = Inr (serialize d))"
proof -
  have coll: "collection store_x ''chapter'' = [(''_id'', VObjectId 0) # ChapterIn_dump chapter_x]"
    by (simp add: store_x_def collection_insert_one collection_empty_store next_oid_empty_store)
  have absent: "\<not> (\<exists>d\<in>set (collection store_x ''chapter''). map_of d ''slug'' = Some (VStr ''does-not-exist''))"
    by (simp add: coll ChapterIn_dump_def chapter_x_def)
  have present: "\<exists>d\<in>set (collection store_x ''chapter''). map_of d ''slug'' = Some (VStr ''x'')"
    by (simp add: coll ChapterIn_dump_def chapter_x_def)
  from get_chapter_not_found [of store_x "''does-not-exist''"] absent
  have "get_chapter (Some store_x) ''does-not-exist'' = Inl (HTTPException 404 ''Chapter not found'')"
    by blast
  moreover from get_chapter_not_found [of store_x "''x''"] present
  have "\<exists>d. d \<in> set (collection store_x ''chapter'') \<and> get_chapter (Some store_x) ''x'' = Inr (serialize d)"
    by blast
  ultimately show ?thesis
    by blast
qed

text \<open>
  C5: a chapter created under a slug that no stored chapter carries is returned by
  \<^verbatim>\<open>get_chapter\<close> as the dumped request followed by one more field \<^verbatim>\<open>id\<close>: the
  slug, title, summary, objectives and sections are those of the request, \<^verbatim>\<open>id\<close>
  is the non-empty rendering of the identifier the store assigned, the request has no
  field \<^verbatim>\<open>id\<close>, and the view has no field \<^verbatim>\<open>_id\<close>.
\<close>

theorem create_then_get_chapter:
  assumes "\<not> (\<exists>d\<in>set (collection s ''chapter''). map_of d ''slug'' = Some (VStr (ci_slug payload)))"
  shows "\<exists>s' v ident.
           create_chapter (Some s) payload = (Inr [(''status'', VStr ''ok'')], Some s')
         \<and> get_chapter (Some s') (ci_slug payload) = Inr v
         \<and> v = ChapterIn_dump payload @ [(''id'', VStr ident)]
         \<and> ident = str_ObjectId (next_oid s) \<and> ident \<noteq> []
         \<and> map_of v ''slug'' = Some (VStr (ci_slug payload))
         \<and> map_of v ''title'' = Some (VStr (ci_title payload))
         \<and> map_of v ''summary'' = Some (VStr (ci_summary payload))
         \<and> map_of v ''objectives'' = Some (VList (map VStr (ci_objectives payload)))
         \<and> map_of v ''sections'' = Some (VList (map VDict (ci_sections payload)))
         \<and> map_of v ''id'' = Some (VStr ident)
         \<and> map_of v ''_id'' = None
         \<and> map_of (ChapterIn_dump payload) ''id'' = None"
proof -
  let ?s' = "snd (insert_one s ''chapter'' (ChapterIn_dump payload))"
  let ?ident = "str_ObjectId (next_oid s)"
  let ?v = "ChapterIn_dump payload @ [(''id'', VStr ?ident)]"
  have "create_chapter (Some s) payload = (Inr [(''status'', VStr ''ok'')], Some ?s')"
    using assms by (rule create_chapter_fresh)
  moreover have "get_chapter (Some ?s') (ci_slug payload) = Inr ?v"
    using assms by (rule get_chapter_after_create)
  moreover have "?ident \<noteq> []"
    by (rule str_ObjectId_nonempty)
  moreover have "map_of ?v ''slug'' = Some (VStr (ci_slug payload))"
    and "map_of ?v ''title'' = Some (VStr (ci_title payload))"
    and "map_of ?v ''summary'' = Some (VStr (ci_summary payload))"
    and "map_of ?v ''objectives'' = Some (VList (map VStr (ci_objectives payload)))"
    and "map_of ?v ''sections'' = Some (VList (map VDict (ci_sections payload)))"
    and "map_of ?v ''id'' = Some (VStr ?ident)"
    and "map_of ?v ''_id'' = None"
    and "map_of (ChapterIn_dump payload) ''id'' = None"
    by (simp_all add: ChapterIn_dump_def)
  ultimately show ?thesis
    by blast
qed

theorem create_then_get_chapter_witness:
  "\<exists>s' v ident.
      create_chapter (Some empty_store) chapter_x = (Inr [(''status'', VStr ''ok'')], Some s')
    \<and> get_chapter (Some s') ''x'' = Inr v
    \<and> v = ChapterIn_dump chapter_x @ [(''id'', VStr ident)]
    \<and> ident = ''000000000000000000000000''
    \<and> map_of v ''title'' = Some (VStr ''t'')"
proof -
  have fresh: "\<not> (\<exists>d\<in>set (collection empty_store ''chapter'').
                    map_of d ''slug'' = Some (VStr (ci_slug chapter_x)))"
    by (simp add: collection_empty_store)
  have slug: "ci_slug chapter_x = ''x''" and title: "ci_title chapter_x = ''t''"
    by (simp_all add: chapter_x_def)
  have ident: "str_ObjectId 0 = ''000000000000000000000000''"
    by code_simp
  from create_then_get_chapter [OF fresh]
  show ?thesis
    unfolding slug title next_oid_empty_store ident by blast
qed

text \<open>
  C8: a chapter request that omits \<^verbatim>\<open>objectives\<close> (or \<^verbatim>\<open>sections\<close>) and carries a
  fresh slug is stored, and returned by \<^verbatim>\<open>get_chapter\<close>, with the empty list in that
  field; a quiz request that omits \<^verbatim>\<open>difficulty\<close> and passes the index check is stored
  with the difficulty "OSN-N".
\<close>

theorem creation_defaults:
  "(\<not> (\<exists>d\<in>set (collection s ''chapter''). map_of d ''slug'' = Some (VStr (cb_slug b))) \<longrightarrow>
      (\<exists>s' stored v.
          create_chapter (Some s) (ChapterIn_of_body b) = (Inr [(''status'', VStr ''ok'')], Some s')
        \<and> collection s' ''chapter'' = collection s ''chapter'' @ [stored]
        \<and> get_chapter (Some s') (cb_slug b) = Inr v
        \<and> (cb_objectives b = None \<longrightarrow>
              map_of stored ''objectives'' = Some (VList []) \<and> map_of v ''objectives'' = Some (VList []))
        \<and> (cb_sections b = None \<longrightarrow>
              map_of stored ''sections'' = Some (VList []) \<and> map_of v ''sections'' = Some (VList []))))
   \<and> (qb_difficulty q = None \<and> 0 \<le> qb_correct_index q
        \<and> qb_correct_index q < int (length (qb_options q)) \<longrightarrow>
      (\<exists>s' stored.
          create_quiz_item (Some s) (QuizIn_of_body q) = (Inr [(''status'', VStr ''ok'')], Some s')
        \<and> collection s' ''quizquestion'' = collection s ''quizquestion'' @ [stored]
        \<and> map_of stored ''difficulty'' = Some (VStr ''OSN-N'')))"
proof (intro conjI impI)
  assume "\<not> (\<exists>d\<in>set (collection s ''chapter''). map_of d ''slug'' = Some (VStr (cb_slug b)))"
  then have fresh: "\<not> (\<exists>d\<in>set (collection s ''chapter'').
                        map_of d ''slug'' = Some (VStr (ci_slug (ChapterIn_of_body b))))"
    by (simp add: ChapterIn_of_body_slug)
  let ?p = "ChapterIn_of_body b"
  let ?s' = "snd (insert_one s ''chapter'' (ChapterIn_dump ?p))"
  let ?stored = "(''_id'', VObjectId (next_oid s)) # ChapterIn_dump ?p"
  let ?v = "ChapterIn_dump ?p @ [(''id'', VStr (str_ObjectId (next_oid s)))]"
  have created: "create_chapter (Some s) ?p = (Inr [(''status'', VStr ''ok'')], Some ?s')"
    using fresh by (rule create_chapter_fresh)
  have coll: "collection ?s' ''chapter'' = collection s ''chapter'' @ [?stored]"
    by (simp add: collection_insert_one)
  have fetched: "get_chapter (Some ?s') (cb_slug b) = Inr ?v"
    using get_chapter_after_create [OF fresh] by (simp only: ChapterIn_of_body_slug)
  have objectives: "cb_objectives b = None \<longrightarrow>
      map_of ?stored ''objectives'' = Some (VList []) \<and> map_of ?v ''objectives'' = Some (VList [])"
    by (simp add: ChapterIn_dump_def ChapterIn_of_body_def)
  have sections: "cb_sections b = None \<longrightarrow>
      map_of ?stored ''sections'' = Some (VList []) \<and> map_of ?v ''sections'' = Some (VList [])"
    by (simp add: ChapterIn_dump_def ChapterIn_of_body_def)
  show "\<exists>s' stored v.
          create_chapter (Some s) (ChapterIn_of_body b) = (Inr [(''status'', VStr ''ok'')], Some s')
        \<and> collection s' ''chapter'' = collection s ''chapter'' @ [stored]
        \<and> get_chapter (Some s') (cb_slug b) = Inr v
        \<and> (cb_objectives b = None \<longrightarrow>
              map_of stored ''objectives'' = Some (VList []) \<and> map_of v ''objectives'' = Some (VList []))
        \<and> (cb_sections b = None \<longrightarrow>
              map_of stored ''sections'' = Some (VList []) \<and> map_of v ''sections'' = Some (VList []))"
    by (intro exI conjI) (rule created, rule coll, rule fetched, rule objectives, rule sections)
next
  assume a: "qb_difficulty q = None \<and> 0 \<le> qb_correct_index q
        \<and> qb_correct_index q < int (length (qb_options q))"
  let ?item = "QuizIn_of_body q"
  let ?s' = "snd (insert_one s ''quizquestion'' (QuizIn_dump ?item))"
  let ?stored = "(''_id'', VObjectId (next_oid s)) # QuizIn_dump ?item"
  have created: "create_quiz_item (Some s) ?item = (Inr [(''status'', VStr ''ok'')], Some ?s')"
    using a by (simp add: create_quiz_item_def create_document_Some QuizIn_of_body_def)
  have coll: "collection ?s' ''quizquestion'' = collection s ''quizquestion'' @ [?stored]"
    by (simp add: collection_insert_one)
  have difficulty: "map_of ?stored ''difficulty'' = Some (VStr ''OSN-N'')"
    using a by (simp add: QuizIn_dump_def QuizIn_of_body_def)
  show "\<exists>s' stored.
          create_quiz_item (Some s) (QuizIn_of_body q) = (Inr [(''status'', VStr ''ok'')], Some s')
        \<and> collection s' ''quizquestion'' = collection s ''quizquestion'' @ [stored]
        \<and> map_of stored ''difficulty'' = Some (VStr ''OSN-N'')"
    by (intro exI conjI) (rule created, rule coll, rule difficulty)
qed

theorem creation_defaults_witness:
  "(\<exists>s' stored v.
       create_chapter (Some empty_store) (ChapterIn_of_body body_minimal) =
         (Inr [(''status'', VStr ''ok'')], Some s')
     \<and> collection s' ''chapter'' = [stored]
     \<and> get_chapter (Some s') ''y'' = Inr v
     \<and> map_of stored ''objectives'' = Some (VList []) \<and> map_of v ''objectives'' = Some (VList [])
     \<and> map_of stored ''sections'' = Some (VList []) \<and> map_of v ''sections'' = Some (VList []))
   \<and> (\<exists>s' stored.
       create_quiz_item (Some empty_store) (QuizIn_of_body quiz_body_minimal) =
         (Inr [(''status'', VStr ''ok'')], Some s')
     \<and> collection s' ''quizquestion'' = [stored]
     \<and> map_of stored ''difficulty'' = Some (VStr ''OSN-N''))"
proof -
  have fresh: "\<not> (\<exists>d\<in>set (collection empty_store ''chapter'').
                    map_of d ''slug'' = Some (VStr (cb_slug body_minimal)))"
    by (simp add: collection_empty_store)
  have omitted: "cb_objectives body_minimal = None" "cb_sections body_minimal = None"
    and slug: "cb_slug body_minimal = ''y''"
    by (simp_all add: body_minimal_def)
  have quiz: "qb_difficulty quiz_body_minimal = None \<and> 0 \<le> qb_correct_index quiz_body_minimal
        \<and> qb_correct_index quiz_body_minimal < int (length (qb_options quiz_body_minimal))"
    by (simp add: quiz_body_minimal_def)
  from creation_defaults [of empty_store body_minimal quiz_body_minimal] fresh omitted quiz
  show ?thesis
    unfolding slug collection_empty_store by auto
qed

section \<open>Seeding\<close>

lemma next_oid_insert_one: "next_oid (snd (insert_one s n d)) = Suc (next_oid s)"
  by (simp add: insert_one_def Let_def)

lemma create_documents_Some:
  "\<exists>s'. create_documents (Some s) n ds = (Inr (), Some s')
        \<and> collection s' n = collection s n @ stored_docs (next_oid s) ds
        \<and> (\<forall>m. m \<noteq> n \<longrightarrow> collection s' m = collection s m)"
proof (induction ds arbitrary: s)
  case Nil
  then show ?case by simp
next
  case (Cons d ds)
  let ?s1 = "snd (insert_one s n d)"
  from Cons.IH [of ?s1] obtain s' where
    run: "create_documents (Some ?s1) n ds = (Inr (), Some s')" and
    coll: "collection s' n = collection ?s1 n @ stored_docs (next_oid ?s1) ds" and
    rest: "\<forall>m. m \<noteq> n \<longrightarrow> collection s' m = collection ?s1 m"
    by blast
  have "create_documents (Some s) n (d # ds) = (Inr (), Some s')"
    by (simp add: create_document_Some run)
  moreover have "collection s' n = collection s n @ stored_docs (next_oid s) (d # ds)"
    by (simp add: coll collection_insert_one next_oid_insert_one)
  moreover have "\<forall>m. m \<noteq> n \<longrightarrow> collection s' m = collection s m"
    by (simp add: rest collection_insert_one)
  ultimately show ?case by blast
qed

lemma validate_sample_questions: "validate_all sample_questions = Inr sample_questions"
  by (simp add: sample_questions_def QuizQuestion_validate_def)

lemma length_sample_questions: "length sample_questions = 3"
  by (simp add: sample_questions_def)

lemma sample_questions_slug:
  "map qq_chapter_slug sample_questions = [''cell-structure'', ''cell-structure'', ''cell-structure'']"
  by (simp add: sample_questions_def)

lemma find_docs_all: "find_docs s n [] = collection s n"
  by (simp add: find_docs_def matches_def)

lemma seed_data_existing:
  assumes "collection s ''chapter'' \<noteq> []"
  shows "seed_data (Some s) =
           (Inr [(''status'', VStr ''ok''), (''message'', VStr ''Already seeded'')], Some s)"
  using assms by (simp add: seed_data_def cursor_limit_def find_docs_all)

lemma seed_data_fresh:
  assumes "collection s ''chapter'' = []"
  shows "\<exists>s'. seed_data (Some s) =
                 (Inr [(''status'', VStr ''ok''), (''message'', VStr ''Seeded'')], Some s')
             \<and> collection s' ''chapter'' = [(''_id'', VObjectId (next_oid s)) # Chapter_dump seed_chapter]
             \<and> collection s' ''quizquestion'' =
                 collection s ''quizquestion'' @
                 stored_docs (Suc (next_oid s)) (map QuizQuestion_dump sample_questions)
             \<and> (\<forall>m. m \<noteq> ''chapter'' \<and> m \<noteq> ''quizquestion'' \<longrightarrow> collection s' m = collection s m)"
proof -
  let ?s1 = "snd (insert_one s ''chapter'' (Chapter_dump seed_chapter))"
  from create_documents_Some [of ?s1 "''quizquestion''" "map QuizQuestion_dump sample_questions"]
  obtain s' where
    run: "create_documents (Some ?s1) ''quizquestion'' (map QuizQuestion_dump sample_questions) =
            (Inr (), Some s')" and
    coll: "collection s' ''quizquestion'' =
             collection ?s1 ''quizquestion'' @
             stored_docs (next_oid ?s1) (map QuizQuestion_dump sample_questions)" and
    rest: "\<forall>m. m \<noteq> ''quizquestion'' \<longrightarrow> collection s' m = collection ?s1 m"
    by blast
  have "seed_data (Some s) =
          (Inr [(''status'', VStr ''ok''), (''message'', VStr ''Seeded'')], Some s')"
    using assms
    by (simp add: seed_data_def cursor_limit_def find_docs_all create_document_Some
        validate_sample_questions run)
  moreover have "collection s' ''chapter'' = [(''_id'', VObjectId (next_oid s)) # Chapter_dump seed_chapter]"
    using assms by (simp add: rest collection_insert_one)
  moreover have "collection s' ''quizquestion'' =
                 collection s ''quizquestion'' @
                 stored_docs (Suc (next_oid s)) (map QuizQuestion_dump sample_questions)"
    by (simp add: coll collection_insert_one next_oid_insert_one)
  moreover have "\<forall>m. m \<noteq> ''chapter'' \<and> m \<noteq> ''quizquestion'' \<longrightarrow> collection s' m = collection s m"
    by (simp add: rest collection_insert_one)
  ultimately show ?thesis by blast
qed

lemma length_stored_docs: "length (stored_docs oid ds) = length ds"
  by (induction ds arbitrary: oid) simp_all

lemma stored_docs_field:
  "k \<noteq> ''_id'' \<Longrightarrow> map (\<lambda>d. map_of d k) (stored_docs oid ds) = map (\<lambda>d. map_of d k) ds"
  by (induction ds arbitrary: oid) simp_all

lemma stored_docs_options_length:
  "map options_length (stored_docs oid ds) = map options_length ds"
  by (induction ds arbitrary: oid) (simp_all add: options_length_def)

lemma index_in_bounds_stored: "index_in_bounds ((''_id'', v) # d) = index_in_bounds d"
  by (simp add: index_in_bounds_def split: option.splits pyval.splits)

lemma stored_docs_index_in_bounds:
  "list_all index_in_bounds (stored_docs oid ds) = list_all index_in_bounds ds"
  by (induction ds arbitrary: oid) (simp_all add: index_in_bounds_stored)

lemma index_in_bounds_QuizIn:
  "index_in_bounds (QuizIn_dump item) \<longleftrightarrow>
     \<not> (qi_correct_index item < 0 \<or> int (length (qi_options item)) \<le> qi_correct_index item)"
  by (auto simp: index_in_bounds_def QuizIn_dump_def)

lemma sample_questions_chapter_slug:
  "map (\<lambda>d. map_of d ''chapter_slug'') (map QuizQuestion_dump sample_questions) =
     [Some (VStr ''cell-structure''), Some (VStr ''cell-structure''), Some (VStr ''cell-structure'')]"
  by (simp add: sample_questions_def QuizQuestion_dump_def)

lemma sample_questions_correct_index:
  "map (\<lambda>d. map_of d ''correct_index'') (map QuizQuestion_dump sample_questions) =
     [Some (VInt 1), Some (VInt 1), Some (VInt 3)]"
  by (simp add: sample_questions_def QuizQuestion_dump_def)

lemma sample_questions_options_length:
  "map options_length (map QuizQuestion_dump sample_questions) = [Some 4, Some 4, Some 4]"
  by (simp add: sample_questions_def QuizQuestion_dump_def options_length_def)

lemma sample_questions_in_bounds:
  "list_all index_in_bounds (map QuizQuestion_dump sample_questions)"
  by (simp add: sample_questions_def QuizQuestion_dump_def index_in_bounds_def)

lemma seed_chapter_slug: "map_of (Chapter_dump seed_chapter) ''slug'' = Some (VStr ''cell-structure'')"
  by (simp add: Chapter_dump_def seed_chapter_def)

text \<open>
  C1: on a store that holds a chapter, \<^verbatim>\<open>seed_data\<close> answers "Already seeded" and
  the store is as it was. On a store that holds none, it answers "Seeded"; afterwards the
  collection \<^verbatim>\<open>chapter\<close> holds exactly one document, with the slug "cell-structure",
  the collection \<^verbatim>\<open>quizquestion\<close> has grown by exactly three documents, each with
  the chapter slug "cell-structure", no other collection has changed, and a second call
  answers "Already seeded" and changes nothing.
\<close>

theorem seed_data_idempotent:
  "(collection s ''chapter'' \<noteq> [] \<longrightarrow>
      seed_data (Some s) =
        (Inr [(''status'', VStr ''ok''), (''message'', VStr ''Already seeded'')], Some s))
   \<and> (collection s ''chapter'' = [] \<longrightarrow>
      (\<exists>s' stored new.
          seed_data (Some s) = (Inr [(''status'', VStr ''ok''), (''message'', VStr ''Seeded'')], Some s')
        \<and> collection s' ''chapter'' = [stored]
        \<and> map_of stored ''slug'' = Some (VStr ''cell-structure'')
        \<and> collection s' ''quizquestion'' = collection s ''quizquestion'' @ new
        \<and> length new = 3
        \<and> map (\<lambda>d. map_of d ''chapter_slug'') new =
            [Some (VStr ''cell-structure''), Some (VStr ''cell-structure''),
             Some (VStr ''cell-structure'')]
        \<and> (\<forall>m. m \<noteq> ''chapter'' \<and> m \<noteq> ''quizquestion'' \<longrightarrow> collection s' m = collection s m)
        \<and> seed_data (Some s') =
            (Inr [(''status'', VStr ''ok''), (''message'', VStr ''Already seeded'')], Some s')))"
proof (intro conjI impI)
  assume "collection s ''chapter'' \<noteq> []"
  then show "seed_data (Some s) =
        (Inr [(''status'', VStr ''ok''), (''message'', VStr ''Already seeded'')], Some s)"
    by (rule seed_data_existing)
next
  assume "collection s ''chapter'' = []"
  from seed_data_fresh [OF this] obtain s' where
    run: "seed_data (Some s) = (Inr [(''status'', VStr ''ok''), (''message'', VStr ''Seeded'')], Some s')" and
    chap: "collection s' ''chapter'' = [(''_id'', VObjectId (next_oid s)) # Chapter_dump seed_chapter]" and
    quiz: "collection s' ''quizquestion'' =
             collection s ''quizquestion'' @
             stored_docs (Suc (next_oid s)) (map QuizQuestion_dump sample_questions)" and
    rest: "\<forall>m. m \<noteq> ''chapter'' \<and> m \<noteq> ''quizquestion'' \<longrightarrow> collection s' m = collection s m"
    by (elim exE conjE) (rule that; assumption)
  let ?new = "stored_docs (Suc (next_oid s)) (map QuizQuestion_dump sample_questions)"
  have slug: "map_of ((''_id'', VObjectId (next_oid s)) # Chapter_dump seed_chapter) ''slug'' =
                Some (VStr ''cell-structure'')"
    by (simp add: seed_chapter_slug)
  have len: "length ?new = 3"
    by (simp add: length_stored_docs length_sample_questions)
  have slugs: "map (\<lambda>d. map_of d ''chapter_slug'') ?new =
            [Some (VStr ''cell-structure''), Some (VStr ''cell-structure''),
             Some (VStr ''cell-structure'')]"
    by (simp only: stored_docs_field [of "''chapter_slug''", simplified] sample_questions_chapter_slug)
  have "collection s' ''chapter'' \<noteq> []"
    by (simp add: chap)
  then have again: "seed_data (Some s') =
      (Inr [(''status'', VStr ''ok''), (''message'', VStr ''Already seeded'')], Some s')"
    by (rule seed_data_existing)
  show "\<exists>s' stored new.
          seed_data (Some s) = (Inr [(''status'', VStr ''ok''), (''message'', VStr ''Seeded'')], Some s')
        \<and> collection s' ''chapter'' = [stored]
        \<and> map_of stored ''slug'' = Some (VStr ''cell-structure'')
        \<and> collection s' ''quizquestion'' = collection s ''quizquestion'' @ new
        \<and> length new = 3
        \<and> map (\<lambda>d. map_of d ''chapter_slug'') new =
            [Some (VStr ''cell-structure''), Some (VStr ''cell-structure''),
             Some (VStr ''cell-structure'')]
        \<and> (\<forall>m. m \<noteq> ''chapter'' \<and> m \<noteq> ''quizquestion'' \<longrightarrow> collection s' m = collection s m)
        \<and> seed_data (Some s') =
            (Inr [(''status'', VStr ''ok''), (''message'', VStr ''Already seeded'')], Some s')"
    by (intro exI conjI)
      (rule run, rule chap, rule slug, rule quiz, rule len, rule slugs, rule rest, rule again)
qed

theorem seed_data_idempotent_witness:
  "\<exists>s' stored new.
      seed_data (Some empty_store) =
        (Inr [(''status'', VStr ''ok''), (''message'', VStr ''Seeded'')], Some s')
    \<and> collection s' ''chapter'' = [stored]
    \<and> collection s' ''quizquestion'' = new
    \<and> length new = 3
    \<and> seed_data (Some s') =
        (Inr [(''status'', VStr ''ok''), (''message'', VStr ''Already seeded'')], Some s')"
proof -
  have fresh: "collection empty_store ''chapter'' = []"
    by (rule collection_empty_store)
  from mp [OF conjunct2 [OF seed_data_idempotent [of empty_store]] fresh]
  obtain s' stored new where
    run: "seed_data (Some empty_store) =
        (Inr [(''status'', VStr ''ok''), (''message'', VStr ''Seeded'')], Some s')" and
    chap: "collection s' ''chapter'' = [stored]" and
    quiz: "collection s' ''quizquestion'' = collection empty_store ''quizquestion'' @ new" and
    len: "length new = 3" and
    again: "seed_data (Some s') =
        (Inr [(''status'', VStr ''ok''), (''message'', VStr ''Already seeded'')], Some s')"
    by (elim exE conjE) (rule that; assumption)
  from quiz have quiz': "collection s' ''quizquestion'' = new"
    by (simp add: collection_empty_store)
  show ?thesis
    by (intro exI conjI) (rule run, rule chap, rule quiz', rule len, rule again)
qed

text \<open>
  C10: after \<^verbatim>\<open>seed_data\<close> on the empty store the collection \<^verbatim>\<open>quizquestion\<close>
  holds three documents; their correct indices are 1, 1 and 3, each has 4 options, and
  each satisfies the bound that \<^verbatim>\<open>create_quiz_item\<close> checks.
\<close>

theorem seeded_questions_in_bounds:
  "\<exists>s' new.
      seed_data (Some empty_store) =
        (Inr [(''status'', VStr ''ok''), (''message'', VStr ''Seeded'')], Some s')
    \<and> collection s' ''quizquestion'' = new
    \<and> length new = 3
    \<and> map (\<lambda>d. map_of d ''correct_index'') new = [Some (VInt 1), Some (VInt 1), Some (VInt 3)]
    \<and> map options_length new = [Some 4, Some 4, Some 4]
    \<and> list_all index_in_bounds new"
proof -
  have "collection empty_store ''chapter'' = []"
    by (rule collection_empty_store)
  from seed_data_fresh [OF this] obtain s' where
    run: "seed_data (Some empty_store) =
            (Inr [(''status'', VStr ''ok''), (''message'', VStr ''Seeded'')], Some s')" and
    quiz: "collection s' ''quizquestion'' =
             collection empty_store ''quizquestion'' @
             stored_docs (Suc (next_oid empty_store)) (map QuizQuestion_dump sample_questions)"
    by (elim exE conjE) (rule that; assumption)
  let ?new = "stored_docs (Suc (next_oid empty_store)) (map QuizQuestion_dump sample_questions)"
  have quiz': "collection s' ''quizquestion'' = ?new"
    by (simp add: quiz collection_empty_store)
  have len: "length ?new = 3"
    by (simp add: length_stored_docs length_sample_questions)
  have idx: "map (\<lambda>d. map_of d ''correct_index'') ?new = [Some (VInt 1), Some (VInt 1), Some (VInt 3)]"
    by (simp only: stored_docs_field [of "''correct_index''", simplified] sample_questions_correct_index)
  have opts: "map options_length ?new = [Some 4, Some 4, Some 4]"
    by (simp only: stored_docs_options_length sample_questions_options_length)
  have bounds: "list_all index_in_bounds ?new"
    by (simp only: stored_docs_index_in_bounds sample_questions_in_bounds)
  show ?thesis
    by (intro exI conjI) (rule run, rule quiz', rule len, rule idx, rule opts, rule bounds)
qed

section \<open>Quiz questions of a chapter\<close>

lemma find_docs_single:
  "find_docs s n [(k, v)] = filter (\<lambda>d. map_of d k = Some v) (collection s n)"
  by (simp add: find_docs_def matches_single [abs_def])

lemma serialize_other_key:
  assumes "k \<noteq> ''_id''" and "k \<noteq> ''id''"
  shows "map_of (serialize d) k = map_of d k"
  using assms by (simp add: serialize_def update_conv' delete_conv' split: option.splits)

lemma get_quiz_for_chapter_Some:
  "get_quiz_for_chapter (Some s) slug limit_param =
     Inr (map serialize
           (take (nat (case limit_param of None \<Rightarrow> 20 | Some n \<Rightarrow> n))
             (filter (\<lambda>d. map_of d ''chapter_slug'' = Some (VStr slug))
               (collection s ''quizquestion''))))"
  by (simp add: get_quiz_for_chapter_def cursor_limit_def find_docs_single Let_def)

lemma seeded_store_quizquestion:
  "collection seeded_store ''quizquestion'' = stored_docs 1 (map QuizQuestion_dump sample_questions)"
proof -
  have "collection empty_store ''chapter'' = []"
    by (rule collection_empty_store)
  from seed_data_fresh [OF this] obtain s' where
    run: "seed_data (Some empty_store) =
            (Inr [(''status'', VStr ''ok''), (''message'', VStr ''Seeded'')], Some s')" and
    quiz: "collection s' ''quizquestion'' =
             collection empty_store ''quizquestion'' @
             stored_docs (Suc (next_oid empty_store)) (map QuizQuestion_dump sample_questions)"
    by (elim exE conjE) (rule that; assumption)
  from run have eq: "s' = seeded_store"
    by (simp add: seeded_store_def)
  from quiz show ?thesis
    unfolding eq by (simp add: collection_empty_store next_oid_empty_store)
qed

lemma seeded_store_slugs:
  "filter (\<lambda>d. map_of d ''chapter_slug'' = Some (VStr slug)) (collection seeded_store ''quizquestion'') =
     (if slug = ''cell-structure'' then collection seeded_store ''quizquestion'' else [])"
proof -
  let ?new = "stored_docs 1 (map QuizQuestion_dump sample_questions)"
  have "map (\<lambda>d. map_of d ''chapter_slug'') ?new =
          [Some (VStr ''cell-structure''), Some (VStr ''cell-structure''),
           Some (VStr ''cell-structure'')]"
    by (simp only: stored_docs_field [of "''chapter_slug''", simplified] sample_questions_chapter_slug)
  then have "set (map (\<lambda>d. map_of d ''chapter_slug'') ?new) = {Some (VStr ''cell-structure'')}"
    by simp
  then have all: "\<forall>d\<in>set ?new. map_of d ''chapter_slug'' = Some (VStr ''cell-structure'')"
    by auto
  show ?thesis
  proof (cases "slug = ''cell-structure''")
    case True
    with all show ?thesis
      by (simp add: seeded_store_quizquestion)
  next
    case False
    with all have "\<forall>d\<in>set ?new. map_of d ''chapter_slug'' \<noteq> Some (VStr slug)"
      by auto
    with False show ?thesis
      by (simp add: seeded_store_quizquestion filter_empty_conv)
  qed
qed

lemma length_seeded_store_quizquestion: "length (collection seeded_store ''quizquestion'') = 3"
  by (simp add: seeded_store_quizquestion length_stored_docs length_sample_questions)

text \<open>
  C7: with a store present, \<^verbatim>\<open>get_quiz_for_chapter\<close> always answers with a list: the
  serializations of the first \<open>limit\<close> documents of \<^verbatim>\<open>quizquestion\<close> whose
  \<^verbatim>\<open>chapter_slug\<close> is the given slug, \<open>limit\<close> being 20 when the request gives none.
  The list is no longer than the limit (than 0 for a negative limit), each element carries
  the given chapter slug, the list is empty when no question carries the slug, and it
  depends on no collection other than \<^verbatim>\<open>quizquestion\<close>: the chapter is not looked up.
\<close>

theorem get_quiz_for_chapter_limit:
  "\<exists>r. get_quiz_for_chapter (Some s) slug limit_param = Inr r
      \<and> r = map serialize
              (take (nat (case limit_param of None \<Rightarrow> 20 | Some n \<Rightarrow> n))
                (filter (\<lambda>d. map_of d ''chapter_slug'' = Some (VStr slug))
                  (collection s ''quizquestion'')))
      \<and> int (length r) \<le> max 0 (case limit_param of None \<Rightarrow> 20 | Some n \<Rightarrow> n)
      \<and> (\<forall>v\<in>set r. map_of v ''chapter_slug'' = Some (VStr slug)
            \<and> (\<exists>d\<in>set (collection s ''quizquestion'').
                  v = serialize d \<and> map_of d ''chapter_slug'' = Some (VStr slug)))
      \<and> ((\<forall>d\<in>set (collection s ''quizquestion''). map_of d ''chapter_slug'' \<noteq> Some (VStr slug)) \<longrightarrow>
            r = [])
      \<and> (\<forall>s2. collection s2 ''quizquestion'' = collection s ''quizquestion'' \<longrightarrow>
            get_quiz_for_chapter (Some s2) slug limit_param = Inr r)"
proof -
  let ?limit = "case limit_param of None \<Rightarrow> 20 | Some n \<Rightarrow> n"
  let ?found = "filter (\<lambda>d. map_of d ''chapter_slug'' = Some (VStr slug)) (collection s ''quizquestion'')"
  let ?r = "map serialize (take (nat ?limit) ?found)"
  have run: "get_quiz_for_chapter (Some s) slug limit_param = Inr ?r"
    by (rule get_quiz_for_chapter_Some)
  have len: "int (length ?r) \<le> max 0 ?limit"
    by simp
  have only: "\<forall>v\<in>set ?r. map_of v ''chapter_slug'' = Some (VStr slug)
            \<and> (\<exists>d\<in>set (collection s ''quizquestion'').
                  v = serialize d \<and> map_of d ''chapter_slug'' = Some (VStr slug))"
  proof
    fix v assume "v \<in> set ?r"
    then obtain d where v: "v = serialize d" and mem: "d \<in> set (take (nat ?limit) ?found)"
      by auto
    from mem have "d \<in> set ?found"
      by (rule in_set_takeD)
    then have d: "d \<in> set (collection s ''quizquestion'')" "map_of d ''chapter_slug'' = Some (VStr slug)"
      by simp_all
    have "map_of v ''chapter_slug'' = map_of d ''chapter_slug''"
      unfolding v by (rule serialize_other_key) simp_all
    with d v show "map_of v ''chapter_slug'' = Some (VStr slug)
            \<and> (\<exists>d\<in>set (collection s ''quizquestion'').
                  v = serialize d \<and> map_of d ''chapter_slug'' = Some (VStr slug))"
      by auto
  qed
  have none: "(\<forall>d\<in>set (collection s ''quizquestion''). map_of d ''chapter_slug'' \<noteq> Some (VStr slug)) \<longrightarrow>
            ?r = []"
    by (simp add: filter_empty_conv [THEN iffD2])
  have indep: "\<forall>s2. collection s2 ''quizquestion'' = collection s ''quizquestion'' \<longrightarrow>
            get_quiz_for_chapter (Some s2) slug limit_param = Inr ?r"
    by (simp add: get_quiz_for_chapter_Some)
  show ?thesis
    by (intro exI conjI) (rule run, rule refl, rule len, rule only, rule none, rule indep)
qed

theorem get_quiz_for_chapter_limit_witness:
  "(\<exists>r. get_quiz_for_chapter (Some seeded_store) ''cell-structure'' (Some 1) = Inr r \<and> length r = 1)
   \<and> (\<exists>r. get_quiz_for_chapter (Some seeded_store) ''cell-structure'' None = Inr r \<and> length r = 3)
   \<and> get_quiz_for_chapter (Some seeded_store) ''does-not-exist'' None = Inr []"
proof (intro conjI)
  from get_quiz_for_chapter_limit [of seeded_store "''cell-structure''" "Some 1"]
  obtain r where
    "get_quiz_for_chapter (Some seeded_store) ''cell-structure'' (Some 1) = Inr r" and
    "r = map serialize
           (take (nat (case Some 1 of None \<Rightarrow> 20 | Some n \<Rightarrow> n))
             (filter (\<lambda>d. map_of d ''chapter_slug'' = Some (VStr ''cell-structure''))
               (collection seeded_store ''quizquestion'')))"
    by (elim exE conjE) (rule that; assumption)
  then show "\<exists>r. get_quiz_for_chapter (Some seeded_store) ''cell-structure'' (Some 1) = Inr r \<and> length r = 1"
    by (simp add: seeded_store_slugs length_seeded_store_quizquestion)
next
  from get_quiz_for_chapter_limit [of seeded_store "''cell-structure''" None]
  obtain r where
    "get_quiz_for_chapter (Some seeded_store) ''cell-structure'' None = Inr r" and
    "r = map serialize
           (take (nat (case None of None \<Rightarrow> 20 | Some n \<Rightarrow> n))
             (filter (\<lambda>d. map_of d ''chapter_slug'' = Some (VStr ''cell-structure''))
               (collection seeded_store ''quizquestion'')))"
    by (elim exE conjE) (rule that; assumption)
  then show "\<exists>r. get_quiz_for_chapter (Some seeded_store) ''cell-structure'' None = Inr r \<and> length r = 3"
    by (simp add: seeded_store_slugs length_seeded_store_quizquestion)
next
  from get_quiz_for_chapter_limit [of seeded_store "''does-not-exist''" None]
  obtain r where
    "get_quiz_for_chapter (Some seeded_store) ''does-not-exist'' None = Inr r" and
    "r = map serialize
           (take (nat (case None of None \<Rightarrow> 20 | Some n \<Rightarrow> n))
             (filter (\<lambda>d. map_of d ''chapter_slug'' = Some (VStr ''does-not-exist''))
               (collection seeded_store ''quizquestion'')))"
    by (elim exE conjE) (rule that; assumption)
  then show "get_quiz_for_chapter (Some seeded_store) ''does-not-exist'' None = Inr []"
    by (simp add: seeded_store_slugs)
qed

section \<open>The health check\<close>

lemma initial_response_keys:
  "map_of initial_response ''collections'' = Some (VList [])"
  "map_of initial_response ''database'' = Some (VStr (cross_mark @ '' Not Available''))"
  by (simp_all add: initial_response_def)

text \<open>
  C9: \<^verbatim>\<open>test_database\<close> has no failing outcome: whatever the import yields, and
  whatever listing the collections yields, the result is the response dictionary. Its
  field \<^verbatim>\<open>collections\<close> holds at most 10 names (the first 10 of the listing, none
  when there is no listing), and an exception raised by the import or by the listing is
  reported as text, cut to 50 characters, in the field \<^verbatim>\<open>database\<close>.
\<close>

theorem test_database_never_fails:
  "\<exists>names text.
      map_of (test_database imported DATABASE_URL) ''collections'' = Some (VList (map VStr names))
    \<and> length names \<le> 10
    \<and> map_of (test_database imported DATABASE_URL) ''database'' = Some (VStr text)
    \<and> (case imported of
          Inl e \<Rightarrow> names = [] \<and> text = cross_mark @ '' Error: '' @ take 50 e
        | Inr None \<Rightarrow> names = [] \<and> text = warning_sign @ ''  Available but not initialized''
        | Inr (Some h) \<Rightarrow>
            (case list_collection_names h of
               Inl e \<Rightarrow> names = [] \<and> text = warning_sign @ ''  Connected but Error: '' @ take 50 e
             | Inr ns \<Rightarrow> names = take 10 ns \<and> text = check_mark @ '' Connected & Working''))"
proof (cases imported)
  case (Inl e)
  then show ?thesis
    by (simp add: test_database_def update_conv' initial_response_keys)
next
  case (Inr h)
  show ?thesis
  proof (cases h)
    case None
    with Inr show ?thesis
      by (simp add: test_database_def update_conv' initial_response_keys)
  next
    case (Some handle)
    show ?thesis
    proof (cases "list_collection_names handle")
      case (Inl e)
      with Inr Some show ?thesis
        by (simp add: test_database_def update_conv' initial_response_keys Let_def)
    next
      case names: (Inr ns)
      have "map_of (test_database imported DATABASE_URL) ''collections'' =
              Some (VList (map VStr (take 10 ns)))"
        and "map_of (test_database imported DATABASE_URL) ''database'' =
              Some (VStr (check_mark @ '' Connected & Working''))"
        using Inr Some names by (simp_all add: test_database_def update_conv' Let_def)
      moreover have "length (take 10 ns) \<le> 10"
        by simp
      ultimately show ?thesis
        using Inr Some names by auto
    qed
  qed
qed

theorem test_database_never_fails_witness:
  "map_of (test_database (Inr (Some handle_many)) None) ''collections'' =
     Some (VList (map VStr
       [''c01'', ''c02'', ''c03'', ''c04'', ''c05'', ''c06'', ''c07'', ''c08'', ''c09'', ''c10'']))
   \<and> map_of (test_database (Inr (Some handle_many)) None) ''database'' =
       Some (VStr (check_mark @ '' Connected & Working''))"
  using test_database_never_fails [of "Inr (Some handle_many)" None]
  by (auto simp: handle_many_def)

end
